theory Spec2Isabelle
  imports Complex_Main
begin

section \<open>Strings and the JavaScript string primitives used by SentimentService\<close>

text \<open>
  A text is a \<^typ>\<open>string\<close>, read as a sequence of UTF-16 code units below 256
  (ASCII and the Latin-1 supplement); each \<^typ>\<open>char\<close> stands for the code unit of
  the same number. Numbers that TypeScript computes in binary floating point
  (confidence, percentages, fractions of a window) are modelled by exact real
  arithmetic; where binary rounding moves a value across a threshold (two shares that
  differ by exactly one tenth, a percentage that is exactly a half) the program can
  decide otherwise than this model.
\<close>

definition code_unit :: "char \<Rightarrow> nat" where
  "code_unit c = of_char c"

text \<open>\<open>\w\<close> of a regular expression without the \<open>u\<close> flag: \<open>[A-Za-z0-9_]\<close>.\<close>

definition isWordChar :: "char \<Rightarrow> bool" where
  "isWordChar c =
     (let n = code_unit c
      in (65 \<le> n \<and> n \<le> 90) \<or> (97 \<le> n \<and> n \<le> 122) \<or> (48 \<le> n \<and> n \<le> 57) \<or> n = 95)"

text \<open>\<open>\s\<close>: TAB, LF, VT, FF, CR, SPACE and NO-BREAK SPACE are the white space and
  line terminators of ECMAScript below 256.\<close>

definition isSpaceChar :: "char \<Rightarrow> bool" where
  "isSpaceChar c = (let n = code_unit c in (9 \<le> n \<and> n \<le> 13) \<or> n = 32 \<or> n = 160)"

text \<open>\<open>String.prototype.toLowerCase\<close>, one code unit at a time: \<open>A-Z\<close> and the
  capital letters \<open>U+00C0..U+00DE\<close> (without the multiplication sign \<open>U+00D7\<close>) move
  up by 32; every other code unit below 256 is its own lower case.\<close>

definition toLowerChar :: "char \<Rightarrow> char" where
  "toLowerChar c =
     (let n = code_unit c
      in if (65 \<le> n \<and> n \<le> 90) \<or> (192 \<le> n \<and> n \<le> 222 \<and> n \<noteq> 215)
         then char_of (n + 32) else c)"

definition toLowerCase :: "string \<Rightarrow> string" where
  "toLowerCase s = map toLowerChar s"

text \<open>\<open>s.replace(/[^\w\s]/g, ' ')\<close>\<close>

definition replaceNonWord :: "string \<Rightarrow> string" where
  "replaceNonWord s = map (\<lambda>c. if isWordChar c \<or> isSpaceChar c then c else CHR '' '') s"

text \<open>
  \<open>s.split(/\s+/)\<close>: the pieces of \<open>s\<close> between the maximal runs of white space.
  A run at the start or at the end of \<open>s\<close> leaves an empty piece there, and the empty
  string splits into one empty piece. \<open>cur\<close> is the piece being read.
\<close>

function splitFrom :: "string \<Rightarrow> string \<Rightarrow> string list" where
  "splitFrom cur [] = [cur]"
| "splitFrom cur (c # cs) =
     (if isSpaceChar c then cur # splitFrom [] (dropWhile isSpaceChar cs)
      else splitFrom (cur @ [c]) cs)"
  by pat_completeness auto
termination
  by (relation "measure (\<lambda>(cur, s). length s)")
     (auto simp: le_imp_less_Suc length_dropWhile_le)

definition splitWhitespace :: "string \<Rightarrow> string list" where
  "splitWhitespace s = splitFrom [] s"

text \<open>\<open>haystack.includes(needle)\<close>: the needle starts at some position of the haystack.\<close>

fun startsWith :: "string \<Rightarrow> string \<Rightarrow> bool" where
  "startsWith s [] = True"
| "startsWith [] (k # ks) = False"
| "startsWith (c # cs) (k # ks) = (c = k \<and> startsWith cs ks)"

fun includesStr :: "string \<Rightarrow> string \<Rightarrow> bool" where
  "includesStr [] k = (k = [])"
| "includesStr (c # cs) k = (startsWith (c # cs) k \<or> includesStr cs k)"

section \<open>The data model\<close>

datatype sentiment = positive | neutral | negative

datatype urgency = low | medium | high | critical

record emotions =
  joy :: real
  anger :: real
  fear :: real
  sadness :: real
  surprise :: real
  disgust :: real

record SentimentAnalysis =
  sentiment :: sentiment
  confidence :: real
  categories :: "string list"
  keywords' :: "string list"
  emotions :: emotions

record FeedbackCategorization =
  primaryCategory :: string
  secondaryCategories :: "string list"
  urgency :: urgency
  actionRequired :: bool
  suggestedActions :: "string list"

section \<open>The lexicons\<close>

definition POSITIVE_KEYWORDS :: "string list" where
  "POSITIVE_KEYWORDS =
    [''excellent'', ''amazing'', ''fantastic'', ''wonderful'', ''great'', ''good'', ''love'', ''perfect'',
     ''outstanding'', ''brilliant'', ''awesome'', ''superb'', ''magnificent'', ''terrific'', ''pleased'',
     ''satisfied'', ''happy'', ''delighted'', ''impressed'', ''recommend'', ''helpful'', ''friendly'',
     ''professional'', ''efficient'', ''quick'', ''fast'', ''easy'', ''smooth'', ''seamless'', ''intuitive'']"

definition NEGATIVE_KEYWORDS :: "string list" where
  "NEGATIVE_KEYWORDS =
    [''terrible'', ''awful'', ''horrible'', ''bad'', ''worst'', ''hate'', ''disgusting'', ''pathetic'',
     ''useless'', ''broken'', ''failed'', ''error'', ''problem'', ''issue'', ''bug'', ''slow'', ''difficult'',
     ''confusing'', ''frustrated'', ''disappointed'', ''angry'', ''upset'', ''annoyed'', ''poor'', ''lacking'',
     ''missing'', ''wrong'', ''incorrect'', ''unacceptable'', ''unprofessional'', ''rude'', ''unhelpful'']"

definition NEUTRAL_KEYWORDS :: "string list" where
  "NEUTRAL_KEYWORDS =
    [''okay'', ''fine'', ''average'', ''normal'', ''standard'', ''typical'', ''regular'', ''moderate'',
     ''acceptable'', ''adequate'', ''sufficient'', ''reasonable'', ''fair'', ''decent'', ''alright'']"

definition CATEGORY_KEYWORDS :: "(string \<times> string list) list" where
  "CATEGORY_KEYWORDS =
    [(''User Experience'', [''ui'', ''ux'', ''interface'', ''design'', ''layout'', ''navigation'', ''usability'', ''user-friendly'']),
     (''Performance'', [''speed'', ''fast'', ''slow'', ''loading'', ''performance'', ''lag'', ''responsive'', ''quick'']),
     (''Customer Service'', [''support'', ''service'', ''staff'', ''help'', ''assistance'', ''representative'', ''agent'']),
     (''Product Quality'', [''quality'', ''product'', ''feature'', ''functionality'', ''reliability'', ''durability'']),
     (''Pricing'', [''price'', ''cost'', ''expensive'', ''cheap'', ''value'', ''money'', ''affordable'', ''pricing'']),
     (''Technical Issues'', [''bug'', ''error'', ''crash'', ''broken'', ''glitch'', ''technical'', ''malfunction'']),
     (''Delivery/Shipping'', [''delivery'', ''shipping'', ''package'', ''arrived'', ''delayed'', ''on-time'']),
     (''Communication'', [''communication'', ''information'', ''updates'', ''notification'', ''contact'']),
     (''Accessibility'', [''accessibility'', ''accessible'', ''disability'', ''screen reader'', ''keyboard'']),
     (''Security'', [''security'', ''privacy'', ''safe'', ''secure'', ''protection'', ''data'', ''personal''])]"

definition EMOTION_joy :: "string list" where
  "EMOTION_joy = [''happy'', ''joy'', ''excited'', ''thrilled'', ''delighted'', ''pleased'', ''cheerful'', ''elated'']"

definition EMOTION_anger :: "string list" where
  "EMOTION_anger = [''angry'', ''mad'', ''furious'', ''irritated'', ''annoyed'', ''frustrated'', ''outraged'']"

definition EMOTION_fear :: "string list" where
  "EMOTION_fear = [''scared'', ''afraid'', ''worried'', ''anxious'', ''concerned'', ''nervous'', ''fearful'']"

definition EMOTION_sadness :: "string list" where
  "EMOTION_sadness = [''sad'', ''disappointed'', ''upset'', ''depressed'', ''unhappy'', ''miserable'', ''down'']"

definition EMOTION_surprise :: "string list" where
  "EMOTION_surprise = [''surprised'', ''shocked'', ''amazed'', ''astonished'', ''unexpected'', ''wow'']"

definition EMOTION_disgust :: "string list" where
  "EMOTION_disgust = [''disgusted'', ''revolted'', ''appalled'', ''repulsed'', ''sickened'', ''nauseated'']"

section \<open>analyzeSentiment: tokens, scores and the decision\<close>

text \<open>\<open>text.toLowerCase().replace(/[^\w\s]/g, ' ').split(/\s+/)\<close>\<close>

definition cleanSplit :: "string \<Rightarrow> string list" where
  "cleanSplit text = splitWhitespace (replaceNonWord (toLowerCase text))"

definition sentimentWords :: "string \<Rightarrow> string list" where
  "sentimentWords text = filter (\<lambda>word. length word > 2) (cleanSplit text)"

text \<open>The body of \<open>words.forEach\<close>: the state is (positiveScore, negativeScore, neutralScore).\<close>

definition scoreWord :: "string \<Rightarrow> nat \<times> nat \<times> nat \<Rightarrow> nat \<times> nat \<times> nat" where
  "scoreWord word s =
     (case s of (positiveScore, negativeScore, neutralScore) \<Rightarrow>
        if word \<in> set POSITIVE_KEYWORDS then (positiveScore + 1, negativeScore, neutralScore)
        else if word \<in> set NEGATIVE_KEYWORDS then (positiveScore, negativeScore + 1, neutralScore)
        else if word \<in> set NEUTRAL_KEYWORDS then (positiveScore, negativeScore, neutralScore + 1)
        else (positiveScore, negativeScore, neutralScore))"

definition sentimentScores :: "string list \<Rightarrow> nat \<times> nat \<times> nat" where
  "sentimentScores ws = fold scoreWord ws (0, 0, 0)"

definition decideSentiment :: "nat \<times> nat \<times> nat \<Rightarrow> sentiment \<times> real" where
  "decideSentiment s =
     (case s of (positiveScore, negativeScore, neutralScore) \<Rightarrow>
        let totalScore = positiveScore + negativeScore + neutralScore
        in if totalScore = 0 then (neutral, 0.5)
           else if positiveScore > negativeScore
             then (positive, min 0.95 (0.5 + (real positiveScore / real totalScore) * 0.5))
           else if negativeScore > positiveScore
             then (negative, min 0.95 (0.5 + (real negativeScore / real totalScore) * 0.5))
           else (neutral, 0.6))"


section \<open>Arrays and objects of JavaScript\<close>

text \<open>
  \<open>Array.prototype.sort\<close> with a comparator is stable. \<open>after a b\<close> says that the
  comparator called on \<open>(a, b)\<close> is positive, so that \<open>a\<close> goes behind \<open>b\<close>; an element
  moves past those it must go behind and stops at the first other one.
\<close>

fun insertBy :: "('a \<Rightarrow> 'a \<Rightarrow> bool) \<Rightarrow> 'a \<Rightarrow> 'a list \<Rightarrow> 'a list" where
  "insertBy after x [] = [x]"
| "insertBy after x (y # ys) = (if after x y then y # insertBy after x ys else x # y # ys)"

definition sortBy :: "('a \<Rightarrow> 'a \<Rightarrow> bool) \<Rightarrow> 'a list \<Rightarrow> 'a list" where
  "sortBy after xs = foldr (insertBy after) xs []"

text \<open>
  The own properties of a plain object are an association list in creation order.
  \<open>Object.entries\<close> lists the keys that are array indices first (canonical decimal
  numerals up to \<open>2^32 - 2\<close>), in ascending numeric order, and then every other key in
  creation order.
\<close>

definition isDigit :: "char \<Rightarrow> bool" where
  "isDigit c = (48 \<le> code_unit c \<and> code_unit c \<le> 57)"

definition decimalValue :: "string \<Rightarrow> int" where
  "decimalValue k = foldl (\<lambda>n c. 10 * n + (int (code_unit c) - 48)) 0 k"

definition isArrayIndex :: "string \<Rightarrow> bool" where
  "isArrayIndex k =
     (k \<noteq> [] \<and> list_all isDigit k \<and> (k = ''0'' \<or> hd k \<noteq> CHR ''0'') \<and> decimalValue k \<le> 4294967294)"

definition objectEntries :: "(string \<times> 'v) list \<Rightarrow> (string \<times> 'v) list" where
  "objectEntries props =
     sortBy (\<lambda>a b. decimalValue (fst a) > decimalValue (fst b)) (filter (\<lambda>p. isArrayIndex (fst p)) props)
     @ filter (\<lambda>p. \<not> isArrayIndex (fst p)) props"

text \<open>Assignment \<open>obj[key] = v\<close> to an own data property: an existing key keeps its
  place, a new key goes to the end.\<close>

fun setProp :: "(string \<times> 'v) list \<Rightarrow> string \<Rightarrow> 'v \<Rightarrow> (string \<times> 'v) list" where
  "setProp [] k v = [(k, v)]"
| "setProp ((k', v') # ps) k v = (if k' = k then (k, v) # ps else (k', v') # setProp ps k v)"

text \<open>An object literal \<open>{}\<close> inherits these properties from \<open>Object.prototype\<close>; each
  of them holds a function or an object, hence a truthy value.\<close>

definition objectPrototypeKeys :: "string list" where
  "objectPrototypeKeys =
    [''constructor'', ''__defineGetter__'', ''__defineSetter__'', ''hasOwnProperty'',
     ''__lookupGetter__'', ''__lookupSetter__'', ''isPrototypeOf'', ''propertyIsEnumerable'',
     ''toString'', ''valueOf'', ''__proto__'', ''toLocaleString'']"

text \<open>\<open>[...new Set(actions)]\<close>: the elements in the order in which they were first added.\<close>

definition uniqueInOrder :: "'a list \<Rightarrow> 'a list" where
  "uniqueInOrder xs = fold (\<lambda>x seen. if x \<in> set seen then seen else seen @ [x]) xs []"

section \<open>extractCategories\<close>

text \<open>
  \<open>Canonicalize\<close> of a regular expression with the flag \<open>i\<close> and without the flag
  \<open>u\<close>: the upper case of the code unit, as a code unit number. The upper cases of
  \<open>U+00FF\<close> and \<open>U+00B5\<close> lie beyond Latin-1, and \<open>U+00DF\<close> has none of one code unit.
\<close>

definition regexCanon :: "char \<Rightarrow> nat" where
  "regexCanon c =
     (let n = code_unit c
      in if (97 \<le> n \<and> n \<le> 122) \<or> (224 \<le> n \<and> n \<le> 254 \<and> n \<noteq> 247) then n - 32
         else if n = 255 then 376 else if n = 181 then 924 else n)"

fun matchLiteral :: "string \<Rightarrow> string \<Rightarrow> bool" where
  "matchLiteral s [] = True"
| "matchLiteral [] (k # ks) = False"
| "matchLiteral (c # cs) (k # ks) = (regexCanon c = regexCanon k \<and> matchLiteral cs ks)"

definition headOpt :: "'a list \<Rightarrow> 'a option" where
  "headOpt xs = (case xs of [] \<Rightarrow> None | x # _ \<Rightarrow> Some x)"

text \<open>\<open>\b\<close> between the character in front of a position (if any) and the one after it.\<close>

definition wordBoundary :: "char option \<Rightarrow> char option \<Rightarrow> bool" where
  "wordBoundary prev nxt =
     ((case prev of None \<Rightarrow> False | Some c \<Rightarrow> isWordChar c)
      \<noteq> (case nxt of None \<Rightarrow> False | Some c \<Rightarrow> isWordChar c))"

text \<open>
  Does \<open>\bkeyword\b\<close> (flags \<open>gi\<close>) match at the current position, where \<open>prev\<close> is
  the character in front of it and \<open>rest\<close> the text from it on?
\<close>

definition matchHere :: "string \<Rightarrow> char option \<Rightarrow> string \<Rightarrow> bool" where
  "matchHere keyword prev rest =
     (wordBoundary prev (headOpt rest) \<and> matchLiteral rest keyword \<and>
      wordBoundary (if keyword = [] then prev else Some (rest ! (length keyword - 1)))
                   (headOpt (drop (length keyword) rest)))"

text \<open>
  \<open>lowerText.match(regex)\<close> with the flag \<open>g\<close>: the number of matches found from left
  to right, each search starting where the match before it ended (one further after
  an empty match).
\<close>

function countMatches :: "string \<Rightarrow> char option \<Rightarrow> string \<Rightarrow> nat" where
  "countMatches keyword prev rest =
     (if matchHere keyword prev rest then
        (if keyword = [] then (case rest of [] \<Rightarrow> 1 | c # cs \<Rightarrow> 1 + countMatches keyword (Some c) cs)
         else 1 + countMatches keyword (Some (rest ! (length keyword - 1))) (drop (length keyword) rest))
      else (case rest of [] \<Rightarrow> 0 | c # cs \<Rightarrow> countMatches keyword (Some c) cs))"
  by pat_completeness auto
termination
proof (relation "measure (\<lambda>(keyword, prev, rest). length rest)", goal_cases)
  case 1
  show ?case by simp
next
  case (2 keyword prev rest c cs)
  then show ?case by simp
next
  case (3 keyword prev rest)
  have len: "matchLiteral s k \<Longrightarrow> length k \<le> length s" for s k
    by (induction s k rule: matchLiteral.induct) auto
  from 3 have "length keyword \<le> length rest"
    by (simp add: matchHere_def len)
  with 3 show ?case by (cases keyword) auto
next
  case (4 keyword prev rest c cs)
  then show ?case by simp
qed

declare countMatches.simps [simp del]

definition categoryScore :: "string \<Rightarrow> string list \<Rightarrow> nat" where
  "categoryScore lowerText kws = foldl (\<lambda>acc keyword. acc + countMatches keyword None lowerText) 0 kws"

definition foundCategories :: "string \<Rightarrow> (string \<times> nat) list" where
  "foundCategories text =
     (let lowerText = toLowerCase text
      in filter (\<lambda>(category, score). score > 0)
           (map (\<lambda>(category, kws). (category, categoryScore lowerText kws))
                (objectEntries CATEGORY_KEYWORDS)))"

definition extractCategories :: "string \<Rightarrow> string list" where
  "extractCategories text =
     take 3 (map fst (sortBy (\<lambda>a b. snd b > snd a) (foundCategories text)))"

section \<open>extractKeywords\<close>

definition stopWords :: "string list" where
  "stopWords =
    [''this'', ''that'', ''with'', ''have'', ''will'', ''from'', ''they'', ''know'', ''want'', ''been'',
     ''good'', ''much'', ''some'', ''time'', ''very'', ''when'', ''come'', ''here'', ''just'', ''like'',
     ''long'', ''make'', ''many'', ''over'', ''such'', ''take'', ''than'', ''them'', ''well'', ''were'']"

text \<open>
  A value stored in \<open>wordCount\<close>: a number, or the string that \<open>+ 1\<close> makes of an
  inherited function or object.
\<close>

datatype countValue = Num nat | Str

text \<open>
  \<open>wordCount[word] = (wordCount[word] || 0) + 1\<close>. The read finds an own property, else
  an inherited one, else \<open>undefined\<close>; the write to \<open>__proto__\<close> is a call of the inherited
  setter, which ignores a string.
\<close>

definition bumpWord :: "string \<Rightarrow> (string \<times> countValue) list \<Rightarrow> (string \<times> countValue) list" where
  "bumpWord word wordCount =
     (let v = (case map_of wordCount word of
                 Some (Num n) \<Rightarrow> Num (n + 1)
               | Some Str \<Rightarrow> Str
               | None \<Rightarrow> if word \<in> set objectPrototypeKeys then Str else Num 1)
      in if word = ''__proto__'' then wordCount else setProp wordCount word v)"

text \<open>
  The comparator \<open>([, a], [, b]) => b - a\<close>; a difference with a string is \<open>NaN\<close>,
  which \<open>sort\<close> reads as 0. With such an entry the comparator is not consistent and
  ECMAScript leaves the order to the engine; the model sorts by insertion then too.
\<close>

definition countAfter :: "string \<times> countValue \<Rightarrow> string \<times> countValue \<Rightarrow> bool" where
  "countAfter x y = (case (snd x, snd y) of (Num a, Num b) \<Rightarrow> b > a | _ \<Rightarrow> False)"

definition keywordCandidates :: "string \<Rightarrow> string list" where
  "keywordCandidates text =
     filter (\<lambda>word. word \<notin> set stopWords) (filter (\<lambda>word. length word > 3) (cleanSplit text))"

definition extractKeywords :: "string \<Rightarrow> string list" where
  "extractKeywords text =
     (let wordCount = fold bumpWord (keywordCandidates text) []
      in map fst (take 5 (sortBy countAfter (objectEntries wordCount))))"

section \<open>analyzeEmotions and analyzeSentiment\<close>

definition emotionScore :: "string \<Rightarrow> string list \<Rightarrow> real" where
  "emotionScore lowerText kws =
     min 1 (real (foldl (\<lambda>acc keyword. acc + (if includesStr lowerText keyword then 1 else 0)) 0 kws) * 0.3)"

definition analyzeEmotions :: "string \<Rightarrow> emotions" where
  "analyzeEmotions text =
     (let lowerText = toLowerCase text
      in \<lparr> joy = emotionScore lowerText EMOTION_joy,
           anger = emotionScore lowerText EMOTION_anger,
           fear = emotionScore lowerText EMOTION_fear,
           sadness = emotionScore lowerText EMOTION_sadness,
           surprise = emotionScore lowerText EMOTION_surprise,
           disgust = emotionScore lowerText EMOTION_disgust \<rparr>)"

definition analyzeSentiment :: "string \<Rightarrow> SentimentAnalysis" where
  "analyzeSentiment text =
     (let decision = decideSentiment (sentimentScores (sentimentWords text))
      in \<lparr> sentiment = fst decision,
           confidence = snd decision,
           categories = extractCategories text,
           keywords' = extractKeywords text,
           emotions = analyzeEmotions text \<rparr>)"


section \<open>categorizeFeedback\<close>

text \<open>The array \<open>actions\<close> of \<open>generateSuggestedActions\<close> after all its pushes.\<close>

definition pushedActions :: "SentimentAnalysis \<Rightarrow> string \<Rightarrow> urgency \<Rightarrow> string list" where
  "pushedActions analysis category urg =
     (if sentiment analysis = negative then
        [''Follow up with customer within 24 hours'', ''Investigate the reported issue'']
        @ (if urg = critical
           then [''Escalate to management immediately'', ''Provide immediate resolution or workaround'']
           else [])
      else if sentiment analysis = positive then
        [''Thank the customer for positive feedback'', ''Share feedback with relevant team'',
         ''Consider featuring as testimonial'']
      else [])
     @ (if category = ''Technical Issues'' then
          [''Forward to technical support team'', ''Create bug report if applicable'']
        else if category = ''Customer Service'' then
          [''Review with customer service manager'', ''Provide additional training if needed'']
        else if category = ''Product Quality'' then
          [''Forward to product development team'', ''Consider for product roadmap'']
        else if category = ''User Experience'' then
          [''Share with UX/UI design team'', ''Consider for next design iteration'']
        else if category = ''Performance'' then
          [''Forward to engineering team'', ''Monitor system performance metrics'']
        else [])"

definition generateSuggestedActions :: "SentimentAnalysis \<Rightarrow> string \<Rightarrow> urgency \<Rightarrow> string list" where
  "generateSuggestedActions analysis category urg =
     take 5 (uniqueInOrder (pushedActions analysis category urg))"

definition urgentKeywords :: "string list" where
  "urgentKeywords = [''urgent'', ''critical'', ''emergency'', ''immediately'', ''asap'', ''broken'', ''not working'']"

definition highPriorityKeywords :: "string list" where
  "highPriorityKeywords = [''important'', ''serious'', ''major'', ''significant'', ''problem'', ''issue'']"

definition decideUrgency :: "string \<Rightarrow> SentimentAnalysis \<Rightarrow> urgency" where
  "decideUrgency text analysis =
     (let lowerText = toLowerCase text
      in if list_ex (\<lambda>keyword. includesStr lowerText keyword) urgentKeywords then critical
         else if sentiment analysis = negative \<and> confidence analysis > 0.8 then high
         else if list_ex (\<lambda>keyword. includesStr lowerText keyword) highPriorityKeywords then medium
         else if sentiment analysis = negative then medium
         else low)"

text \<open>\<open>categories[0] || 'General Feedback'\<close>: a missing first entry and an empty one are
  both falsy.\<close>

definition categorizeFeedback :: "string \<Rightarrow> SentimentAnalysis \<Rightarrow> FeedbackCategorization" where
  "categorizeFeedback text analysis =
     (let cats = categories analysis;
          primary = (case cats of [] \<Rightarrow> ''General Feedback''
                     | c # _ \<Rightarrow> if c = [] then ''General Feedback'' else c);
          urg = decideUrgency text analysis
      in \<lparr> primaryCategory = primary,
           secondaryCategories = take 2 (drop 1 cats),
           urgency = urg,
           actionRequired = (urg = critical \<or> urg = high \<or>
                             (sentiment analysis = negative \<and> confidence analysis > 0.7)),
           suggestedActions = generateSuggestedActions analysis primary urg \<rparr>)"

section \<open>generateInsights\<close>

text \<open>
  A response summary as \<open>generateInsights\<close> reads it: the column \<open>sentiment\<close> (one of the
  three values or null) and, in the optional \<open>metadata\<close>, the optional fields \<open>urgency\<close>,
  \<open>actionRequired\<close> and \<open>categories\<close>.
\<close>

record metadata =
  md_urgency :: "urgency option"
  md_actionRequired :: "bool option"
  md_categories :: "string list option"

record response =
  resp_sentiment :: "sentiment option"
  resp_metadata :: "metadata option"

datatype trend = improving | declining | stable

datatype jsError = TypeError

record sentimentCounts =
  n_positive :: nat
  n_neutral :: nat
  n_negative :: nat

record categoryData =
  cd_count :: nat
  cd_sentiments :: "sentiment list"

record topCategory =
  tc_category :: string
  tc_count :: nat
  tc_sentiment :: sentiment

record percentages =
  pct_positive :: int
  pct_neutral :: int
  pct_negative :: int

record insights =
  overallSentiment :: percentages
  topCategories :: "topCategory list"
  urgentIssues :: nat
  actionableItems :: nat
  sentimentTrend :: trend
  categoryTrends :: "(string \<times> string) list"

definition bumpSentiment :: "sentiment \<Rightarrow> sentimentCounts \<Rightarrow> sentimentCounts" where
  "bumpSentiment s c =
     (case s of positive \<Rightarrow> c\<lparr>n_positive := n_positive c + 1\<rparr>
      | neutral \<Rightarrow> c\<lparr>n_neutral := n_neutral c + 1\<rparr>
      | negative \<Rightarrow> c\<lparr>n_negative := n_negative c + 1\<rparr>)"

text \<open>
  One round of \<open>categories.forEach\<close>. A category that is no own key of \<open>categoryMap\<close> but
  names an inherited property reads as truthy, is not initialised, and
  \<open>categoryMap[category].sentiments.push\<close> throws a TypeError on the missing field.
\<close>

definition trackCategory ::
  "sentiment \<Rightarrow> string \<Rightarrow> (string \<times> categoryData) list \<Rightarrow> jsError + (string \<times> categoryData) list" where
  "trackCategory s category categoryMap =
     (case map_of categoryMap category of
        Some d \<Rightarrow> Inr (setProp categoryMap category
                         \<lparr>cd_count = cd_count d + 1, cd_sentiments = cd_sentiments d @ [s]\<rparr>)
      | None \<Rightarrow>
          if category \<in> set objectPrototypeKeys then Inl TypeError
          else Inr (setProp categoryMap category \<lparr>cd_count = 1, cd_sentiments = [s]\<rparr>))"

fun trackCategories ::
  "sentiment \<Rightarrow> string list \<Rightarrow> (string \<times> categoryData) list \<Rightarrow> jsError + (string \<times> categoryData) list" where
  "trackCategories s [] categoryMap = Inr categoryMap"
| "trackCategories s (category # rest) categoryMap =
     (case trackCategory s category categoryMap of
        Inl e \<Rightarrow> Inl e
      | Inr categoryMap' \<Rightarrow> trackCategories s rest categoryMap')"

record tally =
  t_counts :: sentimentCounts
  t_categoryMap :: "(string \<times> categoryData) list"
  t_urgentIssues :: nat
  t_actionableItems :: nat

text \<open>The body of \<open>responses.forEach\<close>.\<close>

definition tallyResponse :: "response \<Rightarrow> tally \<Rightarrow> jsError + tally" where
  "tallyResponse r t =
     (let counts = (case resp_sentiment r of None \<Rightarrow> t_counts t | Some s \<Rightarrow> bumpSentiment s (t_counts t));
          urg = (case resp_metadata r of None \<Rightarrow> None | Some m \<Rightarrow> md_urgency m);
          urgent = (if urg = Some critical \<or> urg = Some high then t_urgentIssues t + 1 else t_urgentIssues t);
          act = (case resp_metadata r of None \<Rightarrow> None | Some m \<Rightarrow> md_actionRequired m);
          actionable = (if act = Some True then t_actionableItems t + 1 else t_actionableItems t);
          cats = (case resp_metadata r of None \<Rightarrow> None | Some m \<Rightarrow> md_categories m)
      in case (case cats of None \<Rightarrow> Inr (t_categoryMap t)
               | Some cs \<Rightarrow> trackCategories (case resp_sentiment r of None \<Rightarrow> neutral | Some s \<Rightarrow> s)
                                             cs (t_categoryMap t)) of
           Inl e \<Rightarrow> Inl e
         | Inr categoryMap \<Rightarrow>
             Inr \<lparr> t_counts = counts, t_categoryMap = categoryMap,
                   t_urgentIssues = urgent, t_actionableItems = actionable \<rparr>)"

fun tallyResponses :: "response list \<Rightarrow> tally \<Rightarrow> jsError + tally" where
  "tallyResponses [] t = Inr t"
| "tallyResponses (r # rs) t =
     (case tallyResponse r t of Inl e \<Rightarrow> Inl e | Inr t' \<Rightarrow> tallyResponses rs t')"

text \<open>\<open>Math.round\<close>: the nearest integer, a half going up.\<close>

definition mathRound :: "real \<Rightarrow> int" where
  "mathRound x = \<lfloor>x + 1 / 2\<rfloor>"

definition dominantSentiment :: "sentiment list \<Rightarrow> sentiment" where
  "dominantSentiment ss =
     (let c = fold bumpSentiment ss \<lparr>n_positive = 0, n_neutral = 0, n_negative = 0\<rparr>
      in fst (hd (sortBy (\<lambda>a b. snd b > snd a)
                    [(positive, n_positive c), (neutral, n_neutral c), (negative, n_negative c)])))"

definition topCategoriesOf :: "(string \<times> categoryData) list \<Rightarrow> topCategory list" where
  "topCategoriesOf categoryMap =
     take 5 (sortBy (\<lambda>a b. tc_count b > tc_count a)
       (map (\<lambda>(category, d). \<lparr> tc_category = category, tc_count = cd_count d,
                                 tc_sentiment = dominantSentiment (cd_sentiments d) \<rparr>)
            (objectEntries categoryMap)))"

definition positiveShare :: "response list \<Rightarrow> real" where
  "positiveShare rs = real (length (filter (\<lambda>r. resp_sentiment r = Some positive) rs)) / real (length rs)"

definition trendOf :: "response list \<Rightarrow> trend" where
  "trendOf responses =
     (let recentResponses = drop (length responses - 10) responses;
          olderResponses = take (length responses - 10) responses
      in if length recentResponses > 0 \<and> length olderResponses > 0 then
           (let recentPositive = positiveShare recentResponses;
                olderPositive = positiveShare olderResponses
            in if recentPositive > olderPositive + 0.1 then improving
               else if recentPositive < olderPositive - 0.1 then declining
               else stable)
         else stable)"

definition generateInsights :: "response list \<Rightarrow> jsError + insights" where
  "generateInsights responses =
     (if length responses = 0 then
        Inr \<lparr> overallSentiment = \<lparr>pct_positive = 0, pct_neutral = 0, pct_negative = 0\<rparr>,
              topCategories = [], urgentIssues = 0, actionableItems = 0,
              sentimentTrend = stable, categoryTrends = [] \<rparr>
      else
        case tallyResponses responses
               \<lparr> t_counts = \<lparr>n_positive = 0, n_neutral = 0, n_negative = 0\<rparr>,
                 t_categoryMap = [], t_urgentIssues = 0, t_actionableItems = 0 \<rparr> of
          Inl e \<Rightarrow> Inl e
        | Inr t \<Rightarrow>
            let total = real (length responses)
            in Inr \<lparr> overallSentiment =
                       \<lparr> pct_positive = mathRound (real (n_positive (t_counts t)) / total * 100),
                         pct_neutral = mathRound (real (n_neutral (t_counts t)) / total * 100),
                         pct_negative = mathRound (real (n_negative (t_counts t)) / total * 100) \<rparr>,
                     topCategories = topCategoriesOf (t_categoryMap t),
                     urgentIssues = t_urgentIssues t,
                     actionableItems = t_actionableItems t,
                     sentimentTrend = trendOf responses,
                     categoryTrends = [] \<rparr>)"


section \<open>Notions of the specification\<close>

text \<open>Deduplication that keeps the first occurrence of every element.\<close>

fun keepFirst :: "'a list \<Rightarrow> 'a list" where
  "keepFirst [] = []"
| "keepFirst (x # xs) = x # keepFirst (removeAll x xs)"











text \<open>The number of responses of a collection that carry a given sentiment.\<close>

definition sentimentCount :: "sentiment \<Rightarrow> response list \<Rightarrow> nat" where
  "sentimentCount s rs = length (filter (\<lambda>r. resp_sentiment r = Some s) rs)"

text \<open>A response one of whose categories names a property that every plain object
  inherits.\<close>

definition inheritedCategory :: "response \<Rightarrow> bool" where
  "inheritedCategory r =
     (case resp_metadata r of None \<Rightarrow> False
      | Some m \<Rightarrow> (case md_categories m of None \<Rightarrow> False
                   | Some cs \<Rightarrow> list_ex (\<lambda>c. c \<in> set objectPrototypeKeys) cs))"

text \<open>A response with a sentiment and categories, and no urgency or action flag.\<close>

definition item :: "sentiment option \<Rightarrow> string list \<Rightarrow> response" where
  "item s cs = \<lparr> resp_sentiment = s,
                 resp_metadata = Some \<lparr> md_urgency = None, md_actionRequired = None,
                                        md_categories = Some cs \<rparr> \<rparr>"

section \<open>Properties of the string primitives\<close>

lemma startsWith_iff: "startsWith s k \<longleftrightarrow> (\<exists>post. s = k @ post)"
  by (induction s k rule: startsWith.induct) auto

lemma includesStr_iff: "includesStr s k \<longleftrightarrow> (\<exists>pre post. s = pre @ k @ post)"
proof (induction s)
  case Nil
  then show ?case by simp
next
  case (Cons c cs)
  have "(\<exists>pre post. c # cs = pre @ k @ post)
        \<longleftrightarrow> (\<exists>post. c # cs = k @ post) \<or> (\<exists>pre post. cs = pre @ k @ post)"
    by (auto simp: Cons_eq_append_conv)
  then show ?case using Cons.IH by (simp add: startsWith_iff)
qed

lemma list_ex_includes:
  "list_ex (\<lambda>keyword. includesStr s keyword) ks \<longleftrightarrow> (\<exists>k\<in>set ks. \<exists>pre post. s = pre @ k @ post)"
  by (simp add: list_ex_iff includesStr_iff)

section \<open>Properties of deduplication\<close>

lemma fold_unique_acc:
  "fold (\<lambda>x seen. if x \<in> set seen then seen else seen @ [x]) xs acc
   = acc @ keepFirst (filter (\<lambda>x. x \<notin> set acc) xs)"
proof (induction xs arbitrary: acc)
  case Nil
  then show ?case by simp
next
  case (Cons x xs)
  have "removeAll x (filter (\<lambda>y. y \<notin> set acc) xs) = filter (\<lambda>y. y \<notin> set (acc @ [x])) xs"
    by (induction xs) auto
  then show ?case using Cons.IH by simp
qed

lemma uniqueInOrder_keepFirst: "uniqueInOrder xs = keepFirst xs"
  by (simp add: uniqueInOrder_def fold_unique_acc)

lemma set_keepFirst: "set (keepFirst xs) = set xs"
  by (induction xs rule: keepFirst.induct) auto

lemma distinct_keepFirst: "distinct (keepFirst xs)"
  by (induction xs rule: keepFirst.induct) (auto simp: set_keepFirst)

section \<open>The sentiment decision\<close>

lemma decideSentiment_bounds:
  "1 / 2 \<le> snd (decideSentiment s) \<and> snd (decideSentiment s) \<le> 95 / 100"
proof -
  obtain p n u where s: "s = (p, n, u)" by (cases s) auto
  have frac: "0 \<le> real a / real b" for a b :: nat by simp
  show ?thesis
    using frac [of p "p + n + u"] frac [of n "p + n + u"]
    by (simp add: s decideSentiment_def Let_def min_def)
qed

text \<open>
  C3. For every input string, analyzeSentiment returns one of the three sentiments
  positive, neutral and negative, and a confidence in the closed interval from 0.5
  to 0.95.
\<close>

theorem analyzeSentiment_range:
  "sentiment (analyzeSentiment text) \<in> {positive, neutral, negative} \<and>
   1 / 2 \<le> confidence (analyzeSentiment text) \<and>
   confidence (analyzeSentiment text) \<le> 95 / 100"
proof -
  have "sentiment (analyzeSentiment text) \<in> {positive, neutral, negative}"
    by (cases "sentiment (analyzeSentiment text)") simp_all
  moreover have "confidence (analyzeSentiment text)
                 = snd (decideSentiment (sentimentScores (sentimentWords text)))"
    by (simp add: analyzeSentiment_def Let_def)
  ultimately show ?thesis
    using decideSentiment_bounds [of "sentimentScores (sentimentWords text)"] by simp
qed

text \<open>
  C8. On the empty string analyzeSentiment returns (it does not throw) the sentiment
  neutral with confidence 0.5, no categories, no keywords, and the score 0 for each
  of the six emotions.
\<close>

theorem analyzeSentiment_empty:
  "analyzeSentiment '''' =
     \<lparr> sentiment = neutral, confidence = 0.5, categories = [], keywords' = [],
       emotions = \<lparr> joy = 0, anger = 0, fear = 0, sadness = 0, surprise = 0, disgust = 0 \<rparr> \<rparr>"
  by code_simp

section \<open>Urgency and suggested actions\<close>

text \<open>
  C2. For every text and every analysis, categorizeFeedback takes the first rule that
  applies: critical if the lower-cased text contains a word of the urgent vocabulary
  as a substring; else high if the sentiment is negative with confidence above 0.8;
  else medium if the text contains a word of the high-priority vocabulary; else medium
  if the sentiment is negative; else low. In particular a text that contains
  "urgent" in any letter case is critical whatever the sentiment.
\<close>

theorem categorizeFeedback_urgency:
  "urgency (categorizeFeedback text analysis) =
     (if \<exists>k \<in> set [''urgent'', ''critical'', ''emergency'', ''immediately'', ''asap'', ''broken'',
                     ''not working'']. \<exists>pre post. toLowerCase text = pre @ k @ post
      then critical
      else if sentiment analysis = negative \<and> confidence analysis > 0.8 then high
      else if \<exists>k \<in> set [''important'', ''serious'', ''major'', ''significant'', ''problem'',
                          ''issue'']. \<exists>pre post. toLowerCase text = pre @ k @ post
      then medium
      else if sentiment analysis = negative then medium
      else low)
   \<and> ((\<exists>pre post. toLowerCase text = pre @ ''urgent'' @ post)
        \<longrightarrow> urgency (categorizeFeedback text analysis) = critical)"
proof -
  have u: "urgency (categorizeFeedback text analysis) = decideUrgency text analysis"
    by (simp add: categorizeFeedback_def Let_def)
  have rule: "decideUrgency text analysis =
     (if \<exists>k \<in> set urgentKeywords. \<exists>pre post. toLowerCase text = pre @ k @ post then critical
      else if sentiment analysis = negative \<and> confidence analysis > 0.8 then high
      else if \<exists>k \<in> set highPriorityKeywords. \<exists>pre post. toLowerCase text = pre @ k @ post
      then medium
      else if sentiment analysis = negative then medium
      else low)"
    unfolding decideUrgency_def Let_def list_ex_includes by (rule refl)
  have mem: "''urgent'' \<in> set urgentKeywords" by (simp add: urgentKeywords_def)
  have part: "decideUrgency text analysis = critical"
    if "\<exists>pre post. toLowerCase text = pre @ ''urgent'' @ post"
  proof -
    from that mem have "\<exists>k \<in> set urgentKeywords. \<exists>pre post. toLowerCase text = pre @ k @ post"
      by blast
    then show ?thesis by (simp add: rule)
  qed
  show ?thesis
    unfolding u using rule part
    unfolding urgentKeywords_def highPriorityKeywords_def by blast
qed

theorem categorizeFeedback_urgency_witness:
  "(\<exists>pre post. toLowerCase ''Not URGENT at all, great work'' = pre @ ''urgent'' @ post) \<and>
   urgency (categorizeFeedback ''Not URGENT at all, great work''
     \<lparr> sentiment = positive, confidence = 0.95, categories = [], keywords' = [''great'', ''work''],
       emotions = \<lparr> joy = 0, anger = 0, fear = 0, sadness = 0, surprise = 0, disgust = 0 \<rparr> \<rparr>)
   = critical"
proof -
  have low: "toLowerCase ''Not URGENT at all, great work'' = ''not '' @ ''urgent'' @ '' at all, great work''"
    by code_simp
  then have h: "\<exists>pre post. toLowerCase ''Not URGENT at all, great work'' = pre @ ''urgent'' @ post"
    by blast
  show ?thesis
    using h categorizeFeedback_urgency [of "''Not URGENT at all, great work''"
      "\<lparr> sentiment = positive, confidence = 0.95, categories = [], keywords' = [''great'', ''work''],
         emotions = \<lparr> joy = 0, anger = 0, fear = 0, sadness = 0, surprise = 0, disgust = 0 \<rparr> \<rparr>"]
    by blast
qed

text \<open>
  C6. For every text and every analysis, the suggested actions of categorizeFeedback
  are at most five, no action occurs twice, and they are the first five of the pushed
  actions after a deduplication that keeps the first occurrence of each.
\<close>

theorem suggestedActions_bounded_distinct:
  "length (suggestedActions (categorizeFeedback text analysis)) \<le> 5 \<and>
   distinct (suggestedActions (categorizeFeedback text analysis)) \<and>
   suggestedActions (categorizeFeedback text analysis)
     = take 5 (keepFirst (pushedActions analysis
                            (primaryCategory (categorizeFeedback text analysis))
                            (urgency (categorizeFeedback text analysis))))"
proof -
  have eq: "suggestedActions (categorizeFeedback text analysis)
     = take 5 (keepFirst (pushedActions analysis
                            (primaryCategory (categorizeFeedback text analysis))
                            (urgency (categorizeFeedback text analysis))))"
    by (simp add: categorizeFeedback_def Let_def generateSuggestedActions_def uniqueInOrder_keepFirst)
  show ?thesis
    unfolding eq by (simp add: distinct_keepFirst)
qed

text \<open>
  C10. When the analysis is neutral and its category list is empty or starts with a
  category other than Technical Issues, Customer Service, Product Quality, User
  Experience and Performance, categorizeFeedback suggests no action at all, whatever
  the urgency: the escalation actions are pushed for a negative sentiment only.
\<close>

theorem neutral_uncategorised_no_actions:
  assumes "sentiment analysis = neutral"
    and "categories analysis = [] \<or>
         hd (categories analysis) \<notin> set [''Technical Issues'', ''Customer Service'',
           ''Product Quality'', ''User Experience'', ''Performance'']"
  shows "suggestedActions (categorizeFeedback text analysis) = []"
proof -
  define primary where "primary = primaryCategory (categorizeFeedback text analysis)"
  have "primary = ''General Feedback'' \<or> (categories analysis \<noteq> [] \<and> primary = hd (categories analysis))"
    by (cases "categories analysis") (simp_all add: primary_def categorizeFeedback_def Let_def)
  with assms(2) have "primary \<notin> set [''Technical Issues'', ''Customer Service'',
           ''Product Quality'', ''User Experience'', ''Performance'']"
    by auto
  then have "pushedActions analysis primary urg = []" for urg
    using assms(1) by (simp add: pushedActions_def)
  then show ?thesis
    by (simp add: categorizeFeedback_def Let_def generateSuggestedActions_def
        uniqueInOrder_keepFirst primary_def)
qed

theorem neutral_uncategorised_no_actions_witness:
  "sentiment \<lparr> sentiment = neutral, confidence = 0.6, categories = [''Pricing''], keywords' = [],
       emotions = \<lparr> joy = 0, anger = 0, fear = 0, sadness = 0, surprise = 0, disgust = 0 \<rparr> \<rparr> = neutral \<and>
   urgency (categorizeFeedback ''the price is fair but this is urgent''
     \<lparr> sentiment = neutral, confidence = 0.6, categories = [''Pricing''], keywords' = [],
       emotions = \<lparr> joy = 0, anger = 0, fear = 0, sadness = 0, surprise = 0, disgust = 0 \<rparr> \<rparr>) = critical \<and>
   suggestedActions (categorizeFeedback ''the price is fair but this is urgent''
     \<lparr> sentiment = neutral, confidence = 0.6, categories = [''Pricing''], keywords' = [],
       emotions = \<lparr> joy = 0, anger = 0, fear = 0, sadness = 0, surprise = 0, disgust = 0 \<rparr> \<rparr>) = []"
proof -
  let ?a = "\<lparr> sentiment = neutral, confidence = 0.6, categories = [''Pricing''], keywords' = [],
       emotions = \<lparr> joy = 0, anger = 0, fear = 0, sadness = 0, surprise = 0, disgust = 0 \<rparr> \<rparr>"
  have h1: "sentiment ?a = neutral" by simp
  have h2: "categories ?a = [] \<or>
         hd (categories ?a) \<notin> set [''Technical Issues'', ''Customer Service'',
           ''Product Quality'', ''User Experience'', ''Performance'']" by simp
  have none: "suggestedActions (categorizeFeedback ''the price is fair but this is urgent'' ?a) = []"
    by (rule neutral_uncategorised_no_actions [OF h1 h2])
  have crit: "urgency (categorizeFeedback ''the price is fair but this is urgent'' ?a) = critical"
    by code_simp
  show ?thesis using h1 none crit by blast
qed

section \<open>Tokens and lexicon hits\<close>









section \<open>Sorting and object entries keep the elements\<close>

lemma set_insertBy: "set (insertBy f x ys) = insert x (set ys)"
  by (induction ys) auto

lemma distinct_map_insertBy:
  "distinct (map g (insertBy f x ys)) \<longleftrightarrow> g x \<notin> g ` set ys \<and> distinct (map g ys)"
  by (induction ys) (auto simp: set_insertBy)

lemma sortBy_Nil: "sortBy f [] = []"
  by (simp add: sortBy_def)

lemma sortBy_Cons: "sortBy f (x # xs) = insertBy f x (sortBy f xs)"
  by (simp add: sortBy_def)

lemma set_sortBy: "set (sortBy f xs) = set xs"
  by (induction xs) (simp_all add: sortBy_Nil sortBy_Cons set_insertBy)

lemma distinct_map_sortBy: "distinct (map g (sortBy f xs)) \<longleftrightarrow> distinct (map g xs)"
  by (induction xs) (simp_all add: sortBy_Nil sortBy_Cons distinct_map_insertBy set_sortBy)

lemma set_objectEntries: "set (objectEntries ps) = set ps"
  by (auto simp: objectEntries_def set_sortBy)

lemma distinct_objectEntries:
  assumes "distinct (map fst ps)"
  shows "distinct (map fst (objectEntries ps))"
proof -
  have a: "distinct (map fst (filter (\<lambda>p. isArrayIndex (fst p)) ps))"
    using assms by (rule distinct_map_filter)
  have b: "distinct (map fst (filter (\<lambda>p. \<not> isArrayIndex (fst p)) ps))"
    using assms by (rule distinct_map_filter)
  show ?thesis
    using a b by (auto simp: objectEntries_def distinct_map_sortBy set_sortBy)
qed

section \<open>The keywords\<close>

lemma keys_setProp:
  "map fst (setProp ps k v) = (if k \<in> set (map fst ps) then map fst ps else map fst ps @ [k])"
proof (induction ps)
  case Nil
  then show ?case by simp
next
  case (Cons p ps)
  obtain k' v' where p: "p = (k', v')" by (cases p)
  have "k \<in> fst ` set ps" if "(k, b) \<in> set ps" for b
    using that by (force simp: image_iff)
  with Cons show ?case by (auto simp: p)
qed

lemma keys_bumpWord:
  "set (map fst (bumpWord w wc)) \<subseteq> insert w (set (map fst wc)) \<and>
   (distinct (map fst wc) \<longrightarrow> distinct (map fst (bumpWord w wc)))"
  by (simp add: bumpWord_def Let_def keys_setProp del: set_map) auto

lemma keys_fold_bumpWord:
  "distinct (map fst wc) \<Longrightarrow>
   set (map fst (fold bumpWord ws wc)) \<subseteq> set ws \<union> set (map fst wc) \<and>
   distinct (map fst (fold bumpWord ws wc))"
proof (induction ws arbitrary: wc)
  case Nil
  then show ?case by simp
next
  case (Cons w ws)
  from Cons.prems keys_bumpWord [of w wc]
  have d: "distinct (map fst (bumpWord w wc))"
    and s: "set (map fst (bumpWord w wc)) \<subseteq> insert w (set (map fst wc))"
    by blast+
  from Cons.IH [OF d] s show ?case by (simp del: set_map) blast
qed

lemma extractKeywords_facts:
  "length (extractKeywords text) \<le> 5 \<and> distinct (extractKeywords text) \<and>
   set (extractKeywords text) \<subseteq> set (keywordCandidates text)"
proof -
  define wc where "wc = fold bumpWord (keywordCandidates text) []"
  have k: "set (map fst wc) \<subseteq> set (keywordCandidates text)" and d: "distinct (map fst wc)"
    using keys_fold_bumpWord [of "[]" "keywordCandidates text"] by (simp_all add: wc_def)
  define es where "es = sortBy countAfter (objectEntries wc)"
  have "distinct (map fst es)"
    by (simp add: es_def distinct_map_sortBy distinct_objectEntries d)
  then have "distinct (take 5 (map fst es))" by (rule distinct_take)
  moreover have "set (take 5 (map fst es)) \<subseteq> set (map fst wc)"
    using set_take_subset [of 5 "map fst es"] by (simp add: es_def set_sortBy set_objectEntries)
  moreover have "extractKeywords text = take 5 (map fst es)"
    by (simp add: extractKeywords_def Let_def wc_def es_def take_map)
  ultimately show ?thesis using k by auto
qed

lemma toLowerChar_idem: "toLowerChar (toLowerChar c) = toLowerChar c"
proof -
  have "code_unit (char_of (code_unit c + 32)) = code_unit c + 32" if "code_unit c \<le> 222"
    using that by (simp add: code_unit_def)
  then show ?thesis
    by (auto simp: toLowerChar_def Let_def)
qed

lemma splitFrom_chars:
  "w \<in> set (splitFrom cur s) \<Longrightarrow> c \<in> set w \<Longrightarrow> c \<in> set cur \<or> (c \<in> set s \<and> \<not> isSpaceChar c)"
proof (induction cur s rule: splitFrom.induct)
  case (1 cur)
  then show ?case by simp
next
  case (2 cur c0 cs)
  show ?case
  proof (cases "isSpaceChar c0")
    case True
    with 2 show ?thesis by (auto dest: set_dropWhileD)
  next
    case False
    with 2 show ?thesis by auto
  qed
qed

lemma cleanSplit_chars:
  assumes "w \<in> set (cleanSplit text)" and "c \<in> set w"
  shows "isWordChar c \<and> toLowerChar c = c"
proof -
  have sp: "isSpaceChar (CHR '' '')" by (simp add: isSpaceChar_def code_unit_def)
  from assms have "c \<in> set (replaceNonWord (toLowerCase text))" and ns: "\<not> isSpaceChar c"
    using splitFrom_chars [of w "[]" "replaceNonWord (toLowerCase text)" c]
    by (auto simp: cleanSplit_def splitWhitespace_def)
  then obtain c0 where "c0 \<in> set text"
    and c: "c = (if isWordChar (toLowerChar c0) \<or> isSpaceChar (toLowerChar c0)
                 then toLowerChar c0 else CHR '' '')"
    by (auto simp: replaceNonWord_def toLowerCase_def)
  with ns sp have "c = toLowerChar c0" and "isWordChar c"
    by (auto split: if_splits)
  then show ?thesis by (simp add: toLowerChar_idem)
qed

text \<open>
  C9. For every input string, the keywords returned by analyzeSentiment are at most
  five, pairwise distinct, and each of them is a token of the lower-cased and cleaned
  text (word characters that lower-casing leaves as they are), longer than 3
  characters and outside the stop-word list. The stop-word list contains "good", so
  "good" is never a keyword, also where it alone makes the sentiment positive.
\<close>

theorem keywords_properties:
  "length (keywords' (analyzeSentiment text)) \<le> 5 \<and>
   distinct (keywords' (analyzeSentiment text)) \<and>
   (\<forall>w \<in> set (keywords' (analyzeSentiment text)).
      w \<in> set (cleanSplit text) \<and>
      (\<forall>c \<in> set w. isWordChar c \<and> toLowerChar c = c) \<and>
      length w > 3 \<and> w \<notin> set stopWords) \<and>
   ''good'' \<in> set stopWords \<and>
   ''good'' \<notin> set (keywords' (analyzeSentiment text))"
proof -
  have k: "keywords' (analyzeSentiment text) = extractKeywords text"
    by (simp add: analyzeSentiment_def Let_def)
  have cand: "w \<in> set (cleanSplit text) \<and> length w > 3 \<and> w \<notin> set stopWords"
    if "w \<in> set (extractKeywords text)" for w
    using that extractKeywords_facts [of "text"] by (auto simp: keywordCandidates_def)
  have good: "''good'' \<in> set stopWords" by (simp add: stopWords_def)
  show ?thesis
    unfolding k using extractKeywords_facts [of "text"] cand good cleanSplit_chars [of _ "text"]
    by blast
qed

theorem keywords_properties_witness:
  "sentimentWords ''Good service, GOOD support'' = [''good'', ''service'', ''good'', ''support''] \<and>
   sentiment (analyzeSentiment ''Good service, GOOD support'') = positive \<and>
   keywords' (analyzeSentiment ''Good service, GOOD support'') = [''service'', ''support''] \<and>
   length (keywords' (analyzeSentiment ''Good service, GOOD support'')) \<le> 5 \<and>
   distinct (keywords' (analyzeSentiment ''Good service, GOOD support'')) \<and>
   ''good'' \<in> set stopWords \<and>
   ''good'' \<notin> set (keywords' (analyzeSentiment ''Good service, GOOD support''))"
proof -
  have ws: "sentimentWords ''Good service, GOOD support'' = [''good'', ''service'', ''good'', ''support'']"
    by code_simp
  have "fst (decideSentiment (sentimentScores (sentimentWords ''Good service, GOOD support''))) = positive"
    by code_simp
  then have s: "sentiment (analyzeSentiment ''Good service, GOOD support'') = positive"
    by (simp add: analyzeSentiment_def Let_def)
  have "extractKeywords ''Good service, GOOD support'' = [''service'', ''support'']"
    by code_simp
  then have k: "keywords' (analyzeSentiment ''Good service, GOOD support'') = [''service'', ''support'']"
    by (simp add: analyzeSentiment_def Let_def)
  show ?thesis
    using ws s k keywords_properties [of "''Good service, GOOD support''"] by blast
qed

section \<open>Matches of a keyword and its whole-word occurrences\<close>





















section \<open>The categories\<close>












section \<open>The insights\<close>

lemma keys_setProp_set: "set (map fst (setProp ps k v)) = insert k (set (map fst ps))"
  by (simp add: keys_setProp del: set_map) auto

lemma trackCategory_cases:
  "(trackCategory s c cm = Inl TypeError \<longleftrightarrow> c \<notin> set (map fst cm) \<and> c \<in> set objectPrototypeKeys) \<and>
   (\<forall>cm'. trackCategory s c cm = Inr cm' \<longrightarrow> set (map fst cm') = insert c (set (map fst cm)))"
proof (cases "map_of cm c")
  case None
  then have "c \<notin> set (map fst cm)" by (simp add: map_of_eq_None_iff)
  with None show ?thesis
    by (auto simp: trackCategory_def keys_setProp_set simp del: set_map)
next
  case (Some d)
  then have "c \<in> set (map fst cm)" by (metis map_of_eq_None_iff option.distinct(1) set_map)
  with Some show ?thesis
    by (auto simp: trackCategory_def keys_setProp_set simp del: set_map)
qed

lemma trackCategories_ok:
  "\<not> list_ex (\<lambda>c. c \<in> set objectPrototypeKeys) cs \<Longrightarrow> \<exists>cm'. trackCategories s cs cm = Inr cm'"
proof (induction cs arbitrary: cm)
  case Nil
  then show ?case by simp
next
  case (Cons c cs)
  then have "trackCategory s c cm \<noteq> Inl TypeError"
    using trackCategory_cases [of s c cm] by simp
  then obtain cm' where "trackCategory s c cm = Inr cm'"
    by (cases "trackCategory s c cm") (auto intro: jsError.exhaust)
  with Cons show ?case by simp
qed

lemma tallyResponse_ok:
  "\<not> inheritedCategory r \<Longrightarrow> \<exists>t'. tallyResponse r t = Inr t'"
proof -
  assume a: "\<not> inheritedCategory r"
  show ?thesis
  proof (cases "resp_metadata r")
    case None
    then show ?thesis by (simp add: tallyResponse_def Let_def)
  next
    case (Some m)
    show ?thesis
    proof (cases "md_categories m")
      case None
      with Some show ?thesis by (simp add: tallyResponse_def Let_def)
    next
      case (Some cs)
      with a \<open>resp_metadata r = Some m\<close>
      have "\<not> list_ex (\<lambda>c. c \<in> set objectPrototypeKeys) cs"
        by (simp add: inheritedCategory_def)
      from trackCategories_ok [OF this]
      obtain cm' where "trackCategories (case resp_sentiment r of None \<Rightarrow> neutral | Some s \<Rightarrow> s)
                          cs (t_categoryMap t) = Inr cm'" by blast
      with Some \<open>resp_metadata r = Some m\<close> show ?thesis
        by (simp add: tallyResponse_def Let_def)
    qed
  qed
qed

lemma tallyResponses_ok:
  "\<not> list_ex inheritedCategory rs \<Longrightarrow> \<exists>t'. tallyResponses rs t = Inr t'"
proof (induction rs arbitrary: t)
  case Nil
  then show ?case by simp
next
  case (Cons r rs)
  then obtain t' where "tallyResponse r t = Inr t'"
    using tallyResponse_ok [of r t] by auto
  with Cons show ?case by simp
qed

text \<open>generateInsights returns on every collection none of whose categories names an
  inherited property.\<close>

lemma generateInsights_returns:
  "\<not> list_ex inheritedCategory rs \<Longrightarrow> \<exists>i. generateInsights rs = Inr i"
proof -
  assume "\<not> list_ex inheritedCategory rs"
  from tallyResponses_ok [OF this]
  obtain t' where "tallyResponses rs
               \<lparr> t_counts = \<lparr>n_positive = 0, n_neutral = 0, n_negative = 0\<rparr>,
                 t_categoryMap = [], t_urgentIssues = 0, t_actionableItems = 0 \<rparr> = Inr t'"
    by blast
  then show ?thesis by (simp add: generateInsights_def Let_def)
qed

lemma tallyResponse_counts:
  assumes "tallyResponse r t = Inr t'"
  shows "t_counts t' = (case resp_sentiment r of None \<Rightarrow> t_counts t
                        | Some s \<Rightarrow> bumpSentiment s (t_counts t))"
  using assms by (auto simp: tallyResponse_def Let_def split: sum.splits)

lemma bump_counts:
  "n_positive (bumpSentiment s c) = n_positive c + (if s = positive then 1 else 0) \<and>
   n_neutral (bumpSentiment s c) = n_neutral c + (if s = neutral then 1 else 0) \<and>
   n_negative (bumpSentiment s c) = n_negative c + (if s = negative then 1 else 0)"
  by (cases s) (simp_all add: bumpSentiment_def)

lemma tallyResponses_counts:
  assumes "tallyResponses rs t = Inr t'"
  shows "n_positive (t_counts t') = n_positive (t_counts t) + sentimentCount positive rs \<and>
         n_neutral (t_counts t') = n_neutral (t_counts t) + sentimentCount neutral rs \<and>
         n_negative (t_counts t') = n_negative (t_counts t) + sentimentCount negative rs"
  using assms
proof (induction rs arbitrary: t)
  case Nil
  then show ?case by (simp add: sentimentCount_def)
next
  case (Cons r rs)
  from Cons.prems obtain t1 where t1: "tallyResponse r t = Inr t1"
    and rest: "tallyResponses rs t1 = Inr t'"
    by (auto split: sum.splits)
  from tallyResponse_counts [OF t1] bump_counts
  have "n_positive (t_counts t1) = n_positive (t_counts t) + sentimentCount positive [r] \<and>
        n_neutral (t_counts t1) = n_neutral (t_counts t) + sentimentCount neutral [r] \<and>
        n_negative (t_counts t1) = n_negative (t_counts t) + sentimentCount negative [r]"
    by (cases "resp_sentiment r") (auto simp: sentimentCount_def)
  with Cons.IH [OF rest] show ?case by (simp add: sentimentCount_def)
qed

text \<open>Where generateInsights returns on a collection that is not empty, each
  percentage is the rounded share of its sentiment among all responses.\<close>

lemma generateInsights_percentages:
  assumes "rs \<noteq> []" and "generateInsights rs = Inr i"
  shows "pct_positive (overallSentiment i)
           = mathRound (real (sentimentCount positive rs) / real (length rs) * 100) \<and>
         pct_neutral (overallSentiment i)
           = mathRound (real (sentimentCount neutral rs) / real (length rs) * 100) \<and>
         pct_negative (overallSentiment i)
           = mathRound (real (sentimentCount negative rs) / real (length rs) * 100)"
proof -
  from assms obtain t where t: "tallyResponses rs
               \<lparr> t_counts = \<lparr>n_positive = 0, n_neutral = 0, n_negative = 0\<rparr>,
                 t_categoryMap = [], t_urgentIssues = 0, t_actionableItems = 0 \<rparr> = Inr t"
    by (auto simp: generateInsights_def Let_def split: sum.splits)
  from tallyResponses_counts [OF t] assms t show ?thesis
    by (auto simp: generateInsights_def Let_def)
qed

text \<open>The three percentages are rounded one by one; here they add up to 99.\<close>

lemma percentages_not_renormalised:
  "map_sum id overallSentiment
     (generateInsights [item (Some positive) [], item (Some neutral) [], item (Some negative) []])
   = Inr \<lparr>pct_positive = 33, pct_neutral = 33, pct_negative = 33\<rparr>"
  by code_simp

lemma trendOf_rule:
  "trendOf rs =
     (if length rs \<le> 10 then stable
      else let recent = drop (length rs - 10) rs; older = take (length rs - 10) rs;
               d = real (sentimentCount positive recent) / real (length recent)
                   - real (sentimentCount positive older) / real (length older)
           in if d > 0.1 then improving else if d < - 0.1 then declining else stable)"
proof (cases "length rs \<le> 10")
  case True
  then show ?thesis by (simp add: trendOf_def Let_def)
next
  case False
  define a where "a = positiveShare (drop (length rs - 10) rs)"
  define b where "b = positiveShare (take (length rs - 10) rs)"
  have 1: "(a > b + 0.1) = (a - b > 0.1)" by linarith
  have 2: "(a < b - 0.1) = (a - b < - 0.1)" by linarith
  from False have w: "length (drop (length rs - 10) rs) > 0 \<and> length (take (length rs - 10) rs) > 0"
    by simp
  have "trendOf rs = (if a > b + 0.1 then improving else if a < b - 0.1 then declining else stable)"
    unfolding trendOf_def Let_def a_def b_def using w by (simp only: if_True simp_thms)
  also have "\<dots> = (if a - b > 0.1 then improving else if a - b < - 0.1 then declining else stable)"
    by (simp only: 1 2)
  finally show ?thesis
    using False by (simp only: a_def b_def positiveShare_def sentimentCount_def Let_def if_False)
qed

text \<open>Where generateInsights returns, the trend compares the share of positive
  responses among the last ten with their share among all earlier ones; with ten
  responses or fewer it is stable.\<close>

lemma generateInsights_trend:
  assumes "generateInsights rs = Inr i"
  shows "sentimentTrend i =
     (if length rs \<le> 10 then stable
      else let recent = drop (length rs - 10) rs; older = take (length rs - 10) rs;
               d = real (sentimentCount positive recent) / real (length recent)
                   - real (sentimentCount positive older) / real (length older)
           in if d > 0.1 then improving else if d < - 0.1 then declining else stable)"
proof (cases "rs = []")
  case True
  with assms show ?thesis by (auto simp: generateInsights_def)
next
  case False
  with assms have "sentimentTrend i = trendOf rs"
    by (auto simp: generateInsights_def Let_def split: sum.splits)
  then show ?thesis by (simp only: trendOf_rule)
qed

lemma trend_example:
  "map_sum id sentimentTrend
     (generateInsights (replicate 2 (item (Some positive) []) @ replicate 8 (item (Some negative) [])
                        @ replicate 8 (item (Some positive) []) @ replicate 2 (item (Some negative) [])))
   = Inr improving"
  by code_simp

text \<open>
  C5. generateInsights does not compute a trend for every input collection. For the
  collection of one positive response that carries the category "constructor" the
  trend of ten responses or fewer, stable, is due; the lookup
  \<open>categoryMap[category]\<close> finds the inherited property, the entry is never
  initialised, and generateInsights throws a TypeError instead of returning.
\<close>

theorem generateInsights_trend_throws:
  "generateInsights [item (Some positive) [''constructor'']] = Inl TypeError"
  by code_simp

text \<open>
  C7. generateInsights does not return the rounded shares for every non-empty input
  collection. For three responses, one positive with the category "constructor", one
  neutral and one negative, each percentage should be round(1/3 * 100) = 33;
  generateInsights throws a TypeError instead of returning.
\<close>

theorem generateInsights_percentages_throw:
  "generateInsights [item (Some positive) [''constructor''], item (Some neutral) [],
                     item (Some negative) []] = Inl TypeError"
  by code_simp

end
